theory Spec2Isabelle
  imports Complex_Main
begin

section \<open>Values of the embedding\<close>

text \<open>
  The request handler of \<^verbatim>\<open>api/predict.py\<close> receives whatever \<^verbatim>\<open>json.loads\<close> produced.
  A decoded body is a value of the type below. \<^verbatim>\<open>json.loads\<close> also accepts the literals
  \<^verbatim>\<open>NaN\<close>, \<^verbatim>\<open>Infinity\<close> and \<^verbatim>\<open>-Infinity\<close>, hence the three extra constructors.
  A finite Python float is carried as the rational number it denotes; a string is a list of
  characters, each \<open>char\<close> standing for a code point below 256.
\<close>

datatype json =
    JNull
  | JBool bool
  | JInt int
  | JFloat rat
  | JNaN
  | JInfinity
  | JNegInfinity
  | JStr string
  | JArray "json list"
  | JObject "(string \<times> json) list"

text \<open>
  The exceptions the request path can raise. \<open>ValueError\<close> and \<open>TypeError\<close> only come from
  \<^verbatim>\<open>int(horizon_window)\<close> and their text is thrown away by the handler on line 149, so they carry
  none; the other two reach the handler on line 164, which prints \<^verbatim>\<open>str(e)\<close>.
\<close>

datatype pyexc =
    AttributeError string
  | OverflowError string
  | ValueError
  | TypeError

fun exc_str :: "pyexc \<Rightarrow> string" where
  "exc_str (AttributeError m) = m"
| "exc_str (OverflowError m) = m"
| "exc_str ValueError = []"
| "exc_str TypeError = []"

definition try_bind :: "pyexc + 'a \<Rightarrow> ('a \<Rightarrow> pyexc + 'b) \<Rightarrow> pyexc + 'b" where
  "try_bind r k = (case r of Inl e \<Rightarrow> Inl e | Inr v \<Rightarrow> k v)"

fun type_name :: "json \<Rightarrow> string" where
  "type_name JNull = ''NoneType''"
| "type_name (JBool b) = ''bool''"
| "type_name (JInt n) = ''int''"
| "type_name (JFloat x) = ''float''"
| "type_name JNaN = ''float''"
| "type_name JInfinity = ''float''"
| "type_name JNegInfinity = ''float''"
| "type_name (JStr s) = ''str''"
| "type_name (JArray xs) = ''list''"
| "type_name (JObject kvs) = ''dict''"

definition no_attribute :: "json \<Rightarrow> string \<Rightarrow> pyexc" where
  "no_attribute v a =
     AttributeError ([CHR 0x27] @ type_name v @ [CHR 0x27] @ '' object has no attribute ''
                     @ [CHR 0x27] @ a @ [CHR 0x27])"

subsection \<open>Dictionary lookup and string trimming\<close>

text \<open>
  \<^verbatim>\<open>data.get(key, default)\<close>: only a dict has the method. A decoded object holds each key
  once, so the first binding of the list is the binding.
\<close>

fun py_get :: "json \<Rightarrow> string \<Rightarrow> json \<Rightarrow> pyexc + json" where
  "py_get (JObject kvs) k d = Inr (case map_of kvs k of None \<Rightarrow> d | Some v \<Rightarrow> v)"
| "py_get v k d = Inl (no_attribute v ''get'')"

text \<open>\<^verbatim>\<open>str.isspace\<close> on the code points below 256.\<close>

definition is_space :: "char \<Rightarrow> bool" where
  "is_space c = ((of_char c :: nat) \<in> {9, 10, 11, 12, 13, 28, 29, 30, 31, 32, 133, 160})"

definition strip :: "string \<Rightarrow> string" where
  "strip s = rev (dropWhile is_space (rev (dropWhile is_space s)))"

text \<open>\<^verbatim>\<open>value.strip()\<close>: only a string has the method.\<close>

fun py_strip :: "json \<Rightarrow> pyexc + string" where
  "py_strip (JStr s) = Inr (strip s)"
| "py_strip v = Inl (no_attribute v ''strip'')"

definition py_join :: "string \<Rightarrow> string list \<Rightarrow> string" where
  "py_join sep xs = (case xs of [] \<Rightarrow> [] | y # ys \<Rightarrow> foldl (\<lambda>acc z. acc @ sep @ z) y ys)"

subsection \<open>Conversion to an integer\<close>

definition is_digit :: "char \<Rightarrow> bool" where
  "is_digit c = (48 \<le> (of_char c :: nat) \<and> (of_char c :: nat) \<le> 57)"

definition digit_val :: "char \<Rightarrow> nat" where
  "digit_val c = of_char c - 48"

text \<open>
  Decimal digits, where a single underscore may stand between two digits. The interpreter's
  limit on the length of such a literal is not part of the model.
\<close>

fun parse_digits :: "string \<Rightarrow> nat \<Rightarrow> nat option" where
  "parse_digits [] acc = Some acc"
| "parse_digits (c # cs) acc =
     (if is_digit c then parse_digits cs (10 * acc + digit_val c)
      else if c = CHR ''_'' then
        (case cs of [] \<Rightarrow> None
         | d # ds \<Rightarrow> if is_digit d then parse_digits cs acc else None)
      else None)"

definition parse_unsigned :: "string \<Rightarrow> nat option" where
  "parse_unsigned s =
     (case s of [] \<Rightarrow> None
      | c # cs \<Rightarrow> if is_digit c then parse_digits s 0 else None)"

text \<open>
  \<^verbatim>\<open>int\<close> on a string skips surrounding white space first, which for this conversion is the
  ASCII set of the C locale together with the two spaces above 127; the four separator
  characters 28 to 31, which \<^verbatim>\<open>strip\<close> removes, are not skipped.
\<close>

definition is_int_space :: "char \<Rightarrow> bool" where
  "is_int_space c = ((of_char c :: nat) \<in> {9, 10, 11, 12, 13, 32, 133, 160})"

definition int_strip :: "string \<Rightarrow> string" where
  "int_strip s = rev (dropWhile is_int_space (rev (dropWhile is_int_space s)))"

definition int_of_string :: "string \<Rightarrow> int option" where
  "int_of_string s =
     (case int_strip s of
        [] \<Rightarrow> None
      | c # cs \<Rightarrow>
          if c = CHR ''+'' then map_option int (parse_unsigned cs)
          else if c = CHR ''-'' then map_option (\<lambda>n. - int n) (parse_unsigned cs)
          else map_option int (parse_unsigned (c # cs)))"

text \<open>\<^verbatim>\<open>int(x)\<close> on a float drops the fractional part (towards zero).\<close>

definition float_to_int :: "rat \<Rightarrow> int" where
  "float_to_int x = (if 0 \<le> x then \<lfloor>x\<rfloor> else \<lceil>x\<rceil>)"

fun py_int :: "json \<Rightarrow> pyexc + int" where
  "py_int (JInt n) = Inr n"
| "py_int (JBool b) = Inr (if b then 1 else 0)"
| "py_int (JFloat x) = Inr (float_to_int x)"
| "py_int JNaN = Inl ValueError"
| "py_int JInfinity = Inl (OverflowError ''cannot convert float infinity to integer'')"
| "py_int JNegInfinity = Inl (OverflowError ''cannot convert float infinity to integer'')"
| "py_int (JStr s) = (case int_of_string s of None \<Rightarrow> Inl ValueError | Some n \<Rightarrow> Inr n)"
| "py_int JNull = Inl TypeError"
| "py_int (JArray xs) = Inl TypeError"
| "py_int (JObject kvs) = Inl TypeError"

subsection \<open>Formatting and rounding\<close>

definition digit_char :: "nat \<Rightarrow> char" where
  "digit_char d = char_of (48 + d)"

fun nat_digits :: "nat \<Rightarrow> string" where
  "nat_digits n = (if n < 10 then [digit_char n] else nat_digits (n div 10) @ [digit_char (n mod 10)])"

declare nat_digits.simps [simp del]

definition pad0 :: "nat \<Rightarrow> string \<Rightarrow> string" where
  "pad0 w s = replicate (w - length s) (CHR ''0'') @ s"

text \<open>\<^verbatim>\<open>f"{n}"\<close> and \<^verbatim>\<open>f"{n:02d}"\<close> for an integer; the sign counts towards the width.\<close>

definition str_int :: "int \<Rightarrow> string" where
  "str_int n = (if n < 0 then CHR ''-'' # nat_digits (nat (- n)) else nat_digits (nat n))"

definition fmt_02d :: "int \<Rightarrow> string" where
  "fmt_02d n = (if n < 0 then CHR ''-'' # pad0 1 (nat_digits (nat (- n)))
                else pad0 2 (nat_digits (nat n)))"

text \<open>
  \<^verbatim>\<open>round(x, ndigits)\<close>: to the nearest multiple of \<open>10\<^sup>-\<^sup>n\<close>, a tie going to the even one.
  Prices are exact rationals here; the rounding error of binary floating point is outside
  the model. Every number the simulation produces is a multiple of a quarter of moderate size,
  which binary floating point represents exactly.
\<close>

definition round_half_even :: "rat \<Rightarrow> int" where
  "round_half_even y =
     (let f = \<lfloor>y\<rfloor>; d = y - of_int f in
      if d < 1 / 2 then f
      else if 1 / 2 < d then f + 1
      else if even f then f else f + 1)"

definition py_round :: "rat \<Rightarrow> nat \<Rightarrow> rat" where
  "py_round x ndigits = of_int (round_half_even (x * 10 ^ ndigits)) / 10 ^ ndigits"

text \<open>\<^verbatim>\<open>range(n)\<close>: empty when \<open>n\<close> is not positive.\<close>

definition py_range :: "int \<Rightarrow> int list" where
  "py_range n = map int [0..<nat n]"

text \<open>\<^verbatim>\<open>min\<close>, \<^verbatim>\<open>max\<close> and \<^verbatim>\<open>sum\<close> scan from the left; the first two need a first element.\<close>

definition py_min :: "rat \<Rightarrow> rat list \<Rightarrow> rat" where
  "py_min x xs = foldl (\<lambda>m y. if y < m then y else m) x xs"

definition py_max :: "rat \<Rightarrow> rat list \<Rightarrow> rat" where
  "py_max x xs = foldl (\<lambda>m y. if m < y then y else m) x xs"

definition py_sum :: "rat list \<Rightarrow> rat" where
  "py_sum xs = foldl (\<lambda>s y. s + y) 0 xs"

section \<open>The prediction handler\<close>

subsection \<open>Data\<close>

record identity =
  product_type :: string
  tg_code :: string
  country_region :: string
  country :: string
  industry :: string

text \<open>
  What \<^verbatim>\<open>predict_single_item\<close> hands back. The collaborator is not part of the repository; the
  handler only tests the returned object for truth and converts it with \<^verbatim>\<open>float\<close>. The model
  covers the objects a price predictor returns: nothing, a boolean, an integer or a finite
  number, the number taken exactly. Infinities and \<^verbatim>\<open>NaN\<close> are not modelled.
  \<open>Raises\<close> stands for any exception below \<^verbatim>\<open>Exception\<close>.
\<close>

datatype pyobj = PNone | PBool bool | PInt int | PFloat rat

datatype model_reply = Raises | Returns pyobj

text \<open>
  The collaborator is called once for each period, with a different year and month each time,
  so a function of the arguments fixes every sequence of replies within one request.
\<close>

type_synonym collaborator = "identity \<Rightarrow> int \<Rightarrow> int \<Rightarrow> model_reply"

fun truthy :: "pyobj \<Rightarrow> bool" where
  "truthy PNone = False"
| "truthy (PBool b) = b"
| "truthy (PInt n) = (n \<noteq> 0)"
| "truthy (PFloat x) = (x \<noteq> 0)"

fun py_float :: "pyobj \<Rightarrow> pyexc + rat" where
  "py_float PNone = Inl TypeError"
| "py_float (PBool b) = Inr (if b then 1 else 0)"
| "py_float (PInt n) =
     (if 2 ^ 1024 - 2 ^ 970 \<le> \<bar>n\<bar> then Inl (OverflowError ''int too large to convert to float'')
      else Inr (of_int n))"
| "py_float (PFloat x) = Inr x"

record prediction =
  period :: int
  year :: int
  month :: int
  date :: string
  predicted_price :: "rat option"
  currency :: string
  error :: "string option"

record statistics =
  min_price :: "rat option"
  max_price :: "rat option"
  avg_price :: "rat option"
  price_trend :: string

record response =
  success :: bool
  model_used :: string
  horizon_window :: int
  total_predictions :: int
  successful_predictions :: int
  failed_predictions :: int
  input_parameters :: identity
  price_statistics :: statistics
  predictions :: "prediction list"
  timestamp :: string
  advisory_note :: "string option"

text \<open>
  The handler returns one of two dictionaries: the failure body
  \<^verbatim>\<open>{"success": False, "error": ..., "timestamp": ...}\<close> or the prediction body above. The
  field \<open>advisory_note\<close> is the key \<^verbatim>\<open>"note"\<close>.
\<close>

datatype result =
    ErrorBody bool string string
  | PredictionBody response

subsection \<open>\<^verbatim>\<open>generate_predictions\<close>\<close>

text \<open>Lines 193 to 195: the calendar pair of a month offset.\<close>

definition period_key :: "int \<Rightarrow> int \<times> int" where
  "period_key month_offset =
     (let y = 2024;
          m = (month_offset mod 12) + 1;
          y = y + month_offset div 12
      in (y, m))"

text \<open>Lines 198 to 216: the price of one period, \<open>None\<close> when the prediction failed.\<close>

definition model_price :: "model_reply \<Rightarrow> rat option" where
  "model_price reply =
     (case reply of
        Raises \<Rightarrow> None
      | Returns returned \<Rightarrow>
          if truthy returned then
            (case py_float returned of Inl e \<Rightarrow> None | Inr x \<Rightarrow> Some x)
          else None)"

definition base_price :: rat where
  "base_price = 20"

definition price_value :: "bool \<Rightarrow> collaborator \<Rightarrow> identity \<Rightarrow> int \<Rightarrow> rat option" where
  "price_value MODEL_LOADED predict_single_item ident month_offset =
     (case period_key month_offset of (y, m) \<Rightarrow>
        if MODEL_LOADED then model_price (predict_single_item ident y m)
        else Some (py_round (base_price + of_int month_offset * (1 / 2)) 2))"

text \<open>Lines 219 to 230: the dictionary of one period.\<close>

definition period_outcome :: "bool \<Rightarrow> collaborator \<Rightarrow> identity \<Rightarrow> int \<Rightarrow> prediction" where
  "period_outcome MODEL_LOADED predict_single_item ident month_offset =
     (case period_key month_offset of (y, m) \<Rightarrow>
        let price = price_value MODEL_LOADED predict_single_item ident month_offset in
        \<lparr> period = month_offset + 1,
          year = y,
          month = m,
          date = str_int y @ ''-'' @ fmt_02d m,
          predicted_price = price,
          currency = ''USD'',
          error = (if price = None then Some ''Prediction failed for this period'' else None) \<rparr>)"

text \<open>The loop of line 191, one iteration for each offset, appending to the list.\<close>

fun predictions_loop ::
  "bool \<Rightarrow> collaborator \<Rightarrow> identity \<Rightarrow> int list \<Rightarrow> prediction list \<Rightarrow> prediction list" where
  "predictions_loop MODEL_LOADED predict_single_item ident [] acc = acc"
| "predictions_loop MODEL_LOADED predict_single_item ident (month_offset # rest) acc =
     predictions_loop MODEL_LOADED predict_single_item ident rest
       (acc @ [period_outcome MODEL_LOADED predict_single_item ident month_offset])"

text \<open>Lines 235 to 253.\<close>

definition successful_of :: "prediction list \<Rightarrow> prediction list" where
  "successful_of ps = filter (\<lambda>p. predicted_price p \<noteq> None) ps"

definition price_trend_of :: "rat list \<Rightarrow> string" where
  "price_trend_of prices =
     (if 1 < length prices \<and> hd prices < last prices then ''increasing''
      else if 1 < length prices \<and> last prices < hd prices then ''decreasing''
      else ''stable'')"

definition calculate_statistics :: "prediction list \<Rightarrow> statistics" where
  "calculate_statistics ps =
     (let successful = successful_of ps in
      case map (\<lambda>p. the (predicted_price p)) successful of
        [] \<Rightarrow> \<lparr> min_price = None, max_price = None, avg_price = None,
                price_trend = ''unknown'' \<rparr>
      | x # xs \<Rightarrow>
          \<lparr> min_price = Some (py_min x xs),
            max_price = Some (py_max x xs),
            avg_price = Some (py_round (py_sum (x # xs) / of_nat (length (x # xs))) 2),
            price_trend = price_trend_of (x # xs) \<rparr>)"

text \<open>
  The whole method. \<open>now\<close> is what \<^verbatim>\<open>datetime.now().isoformat()\<close> returns when the body is
  built; on every path through the handler the clock is read once.
\<close>

definition generate_predictions ::
  "bool \<Rightarrow> collaborator \<Rightarrow> string \<Rightarrow> identity \<Rightarrow> int \<Rightarrow> response" where
  "generate_predictions MODEL_LOADED predict_single_item now ident horizon =
     (let preds = predictions_loop MODEL_LOADED predict_single_item ident (py_range horizon) [];
          successful = successful_of preds
      in \<lparr> success = True,
           model_used = (if MODEL_LOADED then ''tensorflow'' else ''simulation''),
           horizon_window = horizon,
           total_predictions = int (length preds),
           successful_predictions = int (length successful),
           failed_predictions = int (length preds) - int (length successful),
           input_parameters = ident,
           price_statistics = calculate_statistics preds,
           predictions = preds,
           timestamp = now,
           advisory_note =
             (if \<not> MODEL_LOADED
              then Some ''Using simulated data. Deploy with model files for real predictions.''
              else None) \<rparr>)"

subsection \<open>\<^verbatim>\<open>process_prediction_request\<close>\<close>

definition identity_fields :: "string list" where
  "identity_fields = [''product_type'', ''tg_code'', ''country_region'', ''country'', ''industry'']"

text \<open>Lines 113 to 117: each field is fetched and trimmed in turn.\<close>

definition field :: "json \<Rightarrow> string \<Rightarrow> pyexc + string" where
  "field data k = try_bind (py_get data k (JStr [])) py_strip"

text \<open>Lines 121 to 131.\<close>

definition missing_params :: "identity \<Rightarrow> string list" where
  "missing_params ident =
     (if product_type ident = [] then [''product_type''] else [])
   @ (if tg_code ident = [] then [''tg_code''] else [])
   @ (if country_region ident = [] then [''country_region''] else [])
   @ (if country ident = [] then [''country''] else [])
   @ (if industry ident = [] then [''industry''] else [])"

text \<open>
  The body of the outer \<^verbatim>\<open>try\<close>: \<open>Inl\<close> is an exception that leaves it. The inner handler of
  line 149 takes \<open>ValueError\<close> and \<open>TypeError\<close> only.
\<close>

definition request_body :: "bool \<Rightarrow> collaborator \<Rightarrow> string \<Rightarrow> json \<Rightarrow> pyexc + result" where
  "request_body MODEL_LOADED predict_single_item now data =
     try_bind (field data ''product_type'') (\<lambda>pt.
     try_bind (field data ''tg_code'') (\<lambda>tg.
     try_bind (field data ''country_region'') (\<lambda>cr.
     try_bind (field data ''country'') (\<lambda>co.
     try_bind (field data ''industry'') (\<lambda>ind.
     try_bind (py_get data ''horizon_window'' (JInt 1)) (\<lambda>hw.
       let ident = \<lparr> product_type = pt, tg_code = tg, country_region = cr,
                     country = co, industry = ind \<rparr>;
           missing = missing_params ident
       in if missing \<noteq> [] then
            Inr (ErrorBody False
                   (''Missing required parameters: '' @ py_join '', '' missing) now)
          else
            (case py_int hw of
               Inl ValueError \<Rightarrow>
                 Inr (ErrorBody False ''horizon_window must be a valid integer'' now)
             | Inl TypeError \<Rightarrow>
                 Inr (ErrorBody False ''horizon_window must be a valid integer'' now)
             | Inl e \<Rightarrow> Inl e
             | Inr horizon \<Rightarrow>
                 if horizon < 1 \<or> 24 < horizon then
                   Inr (ErrorBody False ''horizon_window must be between 1 and 24 months'' now)
                 else
                   Inr (PredictionBody
                          (generate_predictions MODEL_LOADED predict_single_item now
                             ident horizon)))))))))"

definition process_prediction_request :: "bool \<Rightarrow> collaborator \<Rightarrow> string \<Rightarrow> json \<Rightarrow> result" where
  "process_prediction_request MODEL_LOADED predict_single_item now data =
     (case request_body MODEL_LOADED predict_single_item now data of
        Inl e \<Rightarrow> ErrorBody False (''Prediction processing error: '' @ exc_str e) now
      | Inr r \<Rightarrow> r)"

section \<open>Requests\<close>

text \<open>
  The vocabulary of the statements below. \<open>lookup\<close> reads a key of a decoded object;
  \<open>trimmed\<close> is the text of a field after trimming, empty when the key is absent.
  A \<open>text_payload\<close> is a JSON object in which each of the five identity fields is either
  absent or a string, as the transport contract has it. \<open>missing_fields\<close> lists, in the
  order of the handler, the identity fields that are absent or blank.
\<close>

fun lookup :: "json \<Rightarrow> string \<Rightarrow> json option" where
  "lookup (JObject kvs) k = map_of kvs k"
| "lookup v k = None"

definition is_object :: "json \<Rightarrow> bool" where
  "is_object data = (case data of JObject kvs \<Rightarrow> True | _ \<Rightarrow> False)"

definition text_or_absent :: "json \<Rightarrow> string \<Rightarrow> bool" where
  "text_or_absent data k = (case lookup data k of None \<Rightarrow> True | Some (JStr s) \<Rightarrow> True | Some v \<Rightarrow> False)"

definition trimmed :: "json \<Rightarrow> string \<Rightarrow> string" where
  "trimmed data k = (case lookup data k of Some (JStr s) \<Rightarrow> strip s | _ \<Rightarrow> [])"

definition text_payload :: "json \<Rightarrow> bool" where
  "text_payload data = (is_object data \<and> list_all (text_or_absent data) identity_fields)"

definition missing_fields :: "json \<Rightarrow> string list" where
  "missing_fields data = filter (\<lambda>k. trimmed data k = []) identity_fields"

definition identity_of :: "json \<Rightarrow> identity" where
  "identity_of data =
     \<lparr> product_type = trimmed data ''product_type'', tg_code = trimmed data ''tg_code'',
       country_region = trimmed data ''country_region'', country = trimmed data ''country'',
       industry = trimmed data ''industry'' \<rparr>"

definition horizon_of :: "json \<Rightarrow> json" where
  "horizon_of data = (case lookup data ''horizon_window'' of None \<Rightarrow> JInt 1 | Some v \<Rightarrow> v)"

text \<open>
  The identity fields are present when none of them is missing. A request is valid for the
  horizon \<open>h\<close> when they are present and \<open>horizon_window\<close> is the integer \<open>h\<close>, from 1 to 24.
\<close>

definition identity_present :: "json \<Rightarrow> bool" where
  "identity_present data = (text_payload data \<and> missing_fields data = [])"

definition valid_request :: "json \<Rightarrow> int \<Rightarrow> bool" where
  "valid_request data h =
     (identity_present data \<and> lookup data ''horizon_window'' = Some (JInt h) \<and> 1 \<le> h \<and> h \<le> 24)"

subsection \<open>Sample inputs\<close>

definition sample_request :: json where
  "sample_request = JObject
     [(''product_type'', JStr '' steel ''), (''tg_code'', JStr ''TG1''),
      (''country_region'', JStr ''EU''), (''country'', JStr ''DE''),
      (''industry'', JStr ''auto''), (''horizon_window'', JInt 3)]"

definition failing_model :: collaborator where
  "failing_model ident y m = Raises"

definition two_year_request :: json where
  "two_year_request = JObject
     [(''product_type'', JStr ''resin''), (''tg_code'', JStr ''TG-204''),
      (''country_region'', JStr ''APAC''), (''country'', JStr ''Japan''),
      (''industry'', JStr ''packaging''), (''horizon_window'', JInt 24)]"

definition second_month_none :: collaborator where
  "second_month_none ident y m = (if m = 2 then Returns PNone else Returns (PFloat (25 / 2)))"

definition zero_model :: collaborator where
  "zero_model ident y m = (if m = 1 then Returns (PInt 0) else Returns (PFloat (25 / 2)))"




definition other_model :: collaborator where
  "other_model ident y m = Returns (PFloat (of_int m))"

definition first_instant :: string where
  "first_instant = ''2024-05-01T09:30:00.000001''"

definition second_instant :: string where
  "second_instant = ''2024-05-01T09:30:00.000002''"


definition with_horizon :: "json \<Rightarrow> json" where
  "with_horizon v = JObject
     [(''product_type'', JStr ''steel''), (''tg_code'', JStr ''TG1''),
      (''country_region'', JStr ''EU''), (''country'', JStr ''DE''),
      (''industry'', JStr ''auto''), (''horizon_window'', v)]"

definition without_horizon :: json where
  "without_horizon = JObject
     [(''product_type'', JStr ''steel''), (''tg_code'', JStr ''TG1''),
      (''country_region'', JStr ''EU''), (''country'', JStr ''DE''),
      (''industry'', JStr ''auto'')]"

section \<open>Facts about the helper functions\<close>

lemma predictions_loop_append:
  "predictions_loop loaded f ident offs acc = acc @ map (period_outcome loaded f ident) offs"
  by (induction offs arbitrary: acc) simp_all

lemma length_py_range: "length (py_range n) = nat n"
  by (simp add: py_range_def)

lemma nth_py_range: "i < nat n \<Longrightarrow> py_range n ! i = int i"
  by (simp add: py_range_def)

lemma predictions_generate:
  "predictions (generate_predictions loaded f now ident h) = map (period_outcome loaded f ident) (py_range h)"
  by (simp add: generate_predictions_def Let_def predictions_loop_append)








section \<open>Facts about the handler\<close>

lemma field_text:
  assumes "is_object data" "text_or_absent data k"
  shows "field data k = Inr (trimmed data k)"
proof -
  from assms(1) obtain kvs where d: "data = JObject kvs"
    by (cases data) (simp_all add: is_object_def)
  show ?thesis
  proof (cases "map_of kvs k")
    case None
    then show ?thesis by (simp add: d field_def try_bind_def trimmed_def strip_def)
  next
    case (Some v)
    with assms(2) d obtain s where "v = JStr s"
      by (cases v) (simp_all add: text_or_absent_def)
    with Some show ?thesis by (simp add: d field_def try_bind_def trimmed_def)
  qed
qed

lemma horizon_get:
  assumes "is_object data"
  shows "py_get data ''horizon_window'' (JInt 1) = Inr (horizon_of data)"
proof -
  from assms obtain kvs where d: "data = JObject kvs"
    by (cases data) (simp_all add: is_object_def)
  show ?thesis by (simp add: d horizon_of_def)
qed

lemma missing_params_identity: "missing_params (identity_of data) = missing_fields data"
  by (simp add: missing_params_def identity_of_def missing_fields_def identity_fields_def)

lemma request_body_text:
  assumes "text_payload data"
  shows "request_body loaded f now data =
     (if missing_fields data \<noteq> [] then
        Inr (ErrorBody False (''Missing required parameters: '' @ py_join '', '' (missing_fields data)) now)
      else
        (case py_int (horizon_of data) of
           Inl ValueError \<Rightarrow> Inr (ErrorBody False ''horizon_window must be a valid integer'' now)
         | Inl TypeError \<Rightarrow> Inr (ErrorBody False ''horizon_window must be a valid integer'' now)
         | Inl e \<Rightarrow> Inl e
         | Inr horizon \<Rightarrow>
             if horizon < 1 \<or> 24 < horizon then
               Inr (ErrorBody False ''horizon_window must be between 1 and 24 months'' now)
             else Inr (PredictionBody (generate_predictions loaded f now (identity_of data) horizon))))"
proof -
  from assms have obj: "is_object data"
    and t: "text_or_absent data ''product_type''" "text_or_absent data ''tg_code''"
      "text_or_absent data ''country_region''" "text_or_absent data ''country''"
      "text_or_absent data ''industry''"
    by (simp_all add: text_payload_def identity_fields_def)
  show ?thesis
    unfolding request_body_def field_text [OF obj t(1)] field_text [OF obj t(2)]
      field_text [OF obj t(3)] field_text [OF obj t(4)] field_text [OF obj t(5)]
      horizon_get [OF obj]
    by (simp add: try_bind_def Let_def missing_params_identity [unfolded identity_of_def] identity_of_def split: sum.splits pyexc.splits)
qed


lemma process_horizon:
  assumes "identity_present data" "py_int (horizon_of data) = Inr h"
  shows "process_prediction_request loaded f now data =
    (if h < 1 \<or> 24 < h then ErrorBody False ''horizon_window must be between 1 and 24 months'' now
     else PredictionBody (generate_predictions loaded f now (identity_of data) h))"
  using assms by (simp add: process_prediction_request_def request_body_text identity_present_def)

lemma process_valid:
  assumes "valid_request data h"
  shows "process_prediction_request loaded f now data =
     PredictionBody (generate_predictions loaded f now (identity_of data) h)"
proof -
  from assms have "py_int (horizon_of data) = Inr h"
    by (simp add: valid_request_def horizon_of_def)
  with assms show ?thesis by (simp add: process_horizon valid_request_def)
qed

lemma period_key_eq: "period_key k = (2024 + k div 12, k mod 12 + 1)"
  by (simp add: period_key_def Let_def)

lemma outcome_period [simp]: "period (period_outcome loaded f ident k) = k + 1"
  by (simp add: period_outcome_def period_key_eq Let_def)

lemma outcome_year [simp]: "year (period_outcome loaded f ident k) = 2024 + k div 12"
  by (simp add: period_outcome_def period_key_eq Let_def)

lemma outcome_month [simp]: "month (period_outcome loaded f ident k) = k mod 12 + 1"
  by (simp add: period_outcome_def period_key_eq Let_def)

lemma outcome_date: "date (period_outcome loaded f ident k) = str_int (2024 + k div 12) @ ''-'' @ fmt_02d (k mod 12 + 1)"
  by (simp add: period_outcome_def period_key_eq Let_def)

lemma outcome_price [simp]: "predicted_price (period_outcome loaded f ident k) = price_value loaded f ident k"
  by (simp add: period_outcome_def period_key_eq Let_def)

lemma outcome_error [simp]:
  "error (period_outcome loaded f ident k) =
     (if price_value loaded f ident k = None then Some ''Prediction failed for this period'' else None)"
  by (simp add: period_outcome_def period_key_eq Let_def)

lemma generated_length [simp]: "length (predictions (generate_predictions loaded f now ident h)) = nat h"
  by (simp add: predictions_generate length_py_range)

lemma generated_nth:
  "i < nat h \<Longrightarrow> predictions (generate_predictions loaded f now ident h) ! i = period_outcome loaded f ident (int i)"
  by (simp add: predictions_generate length_py_range nth_py_range)

lemma sample_request_valid: "valid_request sample_request 3"
  by (simp add: valid_request_def identity_present_def text_payload_def is_object_def
      text_or_absent_def missing_fields_def trimmed_def identity_fields_def strip_def
      is_space_def sample_request_def)

lemma two_year_request_valid: "valid_request two_year_request 24"
  by (simp add: valid_request_def identity_present_def text_payload_def is_object_def
      text_or_absent_def missing_fields_def trimmed_def identity_fields_def strip_def
      is_space_def two_year_request_def)

lemma digit_char_0: "digit_char 0 = CHR ''0''"
  by code_simp

lemma digit_char_values:
  "digit_char (Suc 0) = CHR ''1''" "digit_char 1 = CHR ''1''" "digit_char 2 = CHR ''2''" "digit_char 3 = CHR ''3''"
  "digit_char 4 = CHR ''4''" "digit_char 5 = CHR ''5''" "digit_char 6 = CHR ''6''"
  "digit_char 7 = CHR ''7''" "digit_char 8 = CHR ''8''" "digit_char 9 = CHR ''9''"
  by code_simp+

lemma fmt_02d_two_digits:
  assumes "0 \<le> m" "m < 100"
  shows "fmt_02d m = [digit_char (nat m div 10), digit_char (nat m mod 10)]"
proof (cases "nat m < 10")
  case True
  then show ?thesis using assms
    by (simp add: fmt_02d_def pad0_def nat_digits.simps [of "nat m"] digit_char_0)
next
  case False
  then have "nat m div 10 < 10" using assms by simp
  then show ?thesis using assms False
    by (simp add: fmt_02d_def pad0_def nat_digits.simps [of "nat m"] nat_digits.simps [of "nat m div 10"])
qed

lemma str_int_four_digits:
  assumes "1000 \<le> y" "y < 10000"
  shows "str_int y = [digit_char (nat y div 1000), digit_char (nat y div 100 mod 10),
                      digit_char (nat y div 10 mod 10), digit_char (nat y mod 10)]"
proof -
  define n where "n = nat y"
  have n: "1000 \<le> n" "n < 10000" using assms by (simp_all add: n_def)
  have bounds: "\<not> n < 10" "\<not> n div 10 < 10" "\<not> n div 10 div 10 < 10" "n div 10 div 10 div 10 < 10"
    using n by arith+
  have a: "nat_digits n = nat_digits (n div 10) @ [digit_char (n mod 10)]"
    using bounds by (simp add: nat_digits.simps [of n])
  have b: "nat_digits (n div 10) = nat_digits (n div 10 div 10) @ [digit_char (n div 10 mod 10)]"
    using bounds by (simp add: nat_digits.simps [of "n div 10"])
  have c: "nat_digits (n div 10 div 10) = nat_digits (n div 10 div 10 div 10) @ [digit_char (n div 10 div 10 mod 10)]"
    using bounds by (simp add: nat_digits.simps [of "n div 10 div 10"])
  have d: "nat_digits (n div 10 div 10 div 10) = [digit_char (n div 10 div 10 div 10)]"
    using bounds by (simp add: nat_digits.simps [of "n div 10 div 10 div 10"])
  have e: "n div 10 div 10 div 10 = n div 1000" "n div 10 div 10 = n div 100"
    by (simp_all add: div_mult2_eq [symmetric])
  have "nat_digits n = [digit_char (n div 10 div 10 div 10), digit_char (n div 10 div 10 mod 10),
                      digit_char (n div 10 mod 10), digit_char (n mod 10)]"
    unfolding a b c d by simp
  then have "nat_digits n = [digit_char (n div 1000), digit_char (n div 100 mod 10),
                      digit_char (n div 10 mod 10), digit_char (n mod 10)]"
    by (simp add: div_mult2_eq [symmetric])
  then show ?thesis using assms by (simp add: str_int_def n_def)
qed

lemma price_value_model:
  "price_value True f ident k = model_price (f ident (2024 + k div 12) (k mod 12 + 1))"
  by (simp add: price_value_def period_key_eq)

lemma model_price_failure: "model_price Raises = None" "model_price (Returns PNone) = None"
  by (simp_all add: model_price_def)

lemma model_price_falsy: "\<not> truthy v \<Longrightarrow> model_price (Returns v) = None"
  by (simp add: model_price_def)

lemma generated_fields:
  "success (generate_predictions loaded f now ident h) = True"
  "total_predictions (generate_predictions loaded f now ident h) = int (nat h)"
  "successful_predictions (generate_predictions loaded f now ident h) =
     int (length (filter (\<lambda>p. predicted_price p \<noteq> None) (predictions (generate_predictions loaded f now ident h))))"
  "failed_predictions (generate_predictions loaded f now ident h) =
     total_predictions (generate_predictions loaded f now ident h)
     - successful_predictions (generate_predictions loaded f now ident h)"
  "horizon_window (generate_predictions loaded f now ident h) = h"
  "timestamp (generate_predictions loaded f now ident h) = now"
  "input_parameters (generate_predictions loaded f now ident h) = ident"
  by (simp_all add: generate_predictions_def Let_def predictions_loop_append length_py_range
      successful_of_def)

lemma round_half_even_int: "round_half_even (of_int k) = k"
  by (simp add: round_half_even_def)

lemma py_round_exact: "py_round (of_int k / 100) 2 = of_int k / 100"
proof -
  have "of_int k / 100 * 10 ^ 2 = (of_int k :: rat)" by simp
  then show ?thesis unfolding py_round_def by (simp only: round_half_even_int) simp
qed




lemma price_value_simulation:
  "price_value False f ident k = Some (py_round (20 + of_int k * (1 / 2)) 2)"
  by (simp add: price_value_def period_key_eq base_price_def)

lemma simulation_round_exact: "py_round (20 + of_int k * (1 / 2)) 2 = 20 + of_int k / 2"
proof -
  have "(20 + of_int k * (1 / 2) :: rat) = of_int (2000 + 50 * k) / 100" by simp
  then have "py_round (20 + of_int k * (1 / 2)) 2 = of_int (2000 + 50 * k) / 100"
    by (simp only: py_round_exact)
  then show ?thesis by simp
qed

lemma simulation_round_exact_nat: "py_round (20 + of_nat i / 2) 2 = 20 + of_nat i / 2"
  using simulation_round_exact [of "int i"] by simp

lemma price_value_simulation_exact: "price_value False f ident k = Some (20 + of_int k / 2)"
  by (simp only: price_value_simulation simulation_round_exact)

lemma py_range_3: "py_range 3 = [0, 1, 2]"
  by (simp add: py_range_def upt_rec)

lemma simulation_three:
  "map predicted_price (predictions (generate_predictions False f now ident 3))
     = [Some 20, Some (41 / 2), Some 21]"
  by (simp add: predictions_generate py_range_3 price_value_simulation_exact)

lemma stats_three:
  assumes "map predicted_price ps = [Some 20, Some (41 / 2), Some 21]"
  shows "calculate_statistics ps =
     \<lparr> min_price = Some 20, max_price = Some 21, avg_price = Some (41 / 2),
       price_trend = ''increasing'' \<rparr>"
proof -
  from assms obtain a b c where ps: "ps = [a, b, c]"
    and p: "predicted_price a = Some 20" "predicted_price b = Some (41 / 2)"
      "predicted_price c = Some 21"
    by (auto simp: map_eq_Cons_conv)
  have "py_round (of_int 2050 / 100) 2 = of_int 2050 / 100" by (rule py_round_exact)
  then have r: "py_round (41 / 2) 2 = 41 / 2" by simp
  have s: "(20 + 41 / 2 + 21) / 3 = (41 / 2 :: rat)" by simp
  show ?thesis
    by (simp add: ps p calculate_statistics_def successful_of_def py_min_def py_max_def
        py_sum_def price_trend_of_def r s del: not_None_eq)
qed

lemma generated_statistics:
  "price_statistics (generate_predictions loaded f now ident h)
     = calculate_statistics (predictions (generate_predictions loaded f now ident h))"
  by (simp add: generate_predictions_def Let_def)

lemma generated_labels:
  "model_used (generate_predictions loaded f now ident h) = (if loaded then ''tensorflow'' else ''simulation'')"
  "advisory_note (generate_predictions loaded f now ident h) =
     (if loaded then None
      else Some ''Using simulated data. Deploy with model files for real predictions.'')"
  by (simp_all add: generate_predictions_def Let_def)

lemma period_outcome_simulation:
  "period_outcome False f ident k = period_outcome False g ident k"
  by (simp add: period_outcome_def price_value_def)

lemma generate_simulation_clock:
  "generate_predictions False g t2 ident h
     = (generate_predictions False f t1 ident h) \<lparr> timestamp := t2 \<rparr>"
proof -
  have "period_outcome False g ident = period_outcome False f ident"
    by (rule ext) (rule period_outcome_simulation)
  then show ?thesis
    by (simp add: generate_predictions_def Let_def predictions_loop_append)
qed

lemma with_horizon_present: "identity_present (with_horizon v)"
  by (simp add: identity_present_def text_payload_def is_object_def
      text_or_absent_def missing_fields_def trimmed_def identity_fields_def strip_def
      is_space_def with_horizon_def)

lemma with_horizon_lookup: "lookup (with_horizon v) ''horizon_window'' = Some v"
  by (simp add: with_horizon_def)

lemma without_horizon_present: "identity_present without_horizon"
  by (simp add: identity_present_def text_payload_def is_object_def
      text_or_absent_def missing_fields_def trimmed_def identity_fields_def strip_def
      is_space_def without_horizon_def)




lemma process_horizon_invalid:
  assumes "identity_present data" "py_int (horizon_of data) = Inl ValueError"
  shows "process_prediction_request loaded f now data =
    ErrorBody False ''horizon_window must be a valid integer'' now"
  using assms by (simp add: process_prediction_request_def request_body_text identity_present_def)

lemma horizon_of_lookup: "lookup data ''horizon_window'' = Some v \<Longrightarrow> horizon_of data = v"
  "lookup data ''horizon_window'' = None \<Longrightarrow> horizon_of data = JInt 1"
  by (simp_all add: horizon_of_def)

lemma int_of_string_abc: "int_of_string ''abc'' = None"
  by (simp add: int_of_string_def int_strip_def is_int_space_def parse_unsigned_def is_digit_def)

lemma int_of_string_2_9: "int_of_string ''2.9'' = None"
  by (simp add: int_of_string_def int_strip_def is_int_space_def parse_unsigned_def is_digit_def)

lemma float_to_int_2_9: "float_to_int (29 / 10) = 2"
  by code_simp

lemma float_to_int_towards_zero:
  "\<bar>of_int (float_to_int x)\<bar> \<le> \<bar>x\<bar> \<and> \<bar>x - of_int (float_to_int x)\<bar> < 1"
proof (cases "0 \<le> x")
  case True
  then have "0 \<le> \<lfloor>x\<rfloor>" by simp
  then have p: "(0::rat) \<le> of_int \<lfloor>x\<rfloor>" by simp
  have q: "of_int \<lfloor>x\<rfloor> \<le> x" "x < of_int \<lfloor>x\<rfloor> + 1" by linarith+
  have fl: "float_to_int x = \<lfloor>x\<rfloor>" using True by (simp add: float_to_int_def)
  from True p q show ?thesis unfolding fl by (intro conjI; linarith)
next
  case False
  then have "\<lceil>x\<rceil> \<le> 0" by (simp add: ceiling_le_iff)
  then have p: "of_int \<lceil>x\<rceil> \<le> (0::rat)" by simp
  have q: "x \<le> of_int \<lceil>x\<rceil>" "of_int \<lceil>x\<rceil> < x + 1" by linarith+
  have fl: "float_to_int x = \<lceil>x\<rceil>" using False by (simp add: float_to_int_def)
  from False p q show ?thesis unfolding fl by (intro conjI; linarith)
qed



text \<open>
  Outside \<open>text_payload\<close>: an identity field that is present but not a string has no method
  \<^verbatim>\<open>strip\<close>; the \<^verbatim>\<open>AttributeError\<close> leaves the block and the handler of line 164 answers
  with the general failure, whatever else the payload holds.
\<close>

lemma non_text_field_is_processing_error:
  "process_prediction_request loaded f now (JObject [(''tg_code'', JInt 5)]) =
     ErrorBody False
       (''Prediction processing error: '' @ [CHR 0x27] @ ''int'' @ [CHR 0x27]
          @ '' object has no attribute '' @ [CHR 0x27] @ ''strip'' @ [CHR 0x27]) now"
  by (simp add: process_prediction_request_def request_body_def field_def try_bind_def
      no_attribute_def strip_def)
section \<open>The claims\<close>

text \<open>
  C1. For every valid request (the five identity fields non-blank text, \<open>horizon_window\<close> an
  integer between 1 and 24) the handler answers with a prediction body whose list of
  predictions has exactly \<open>horizon_window\<close> entries, and the entry at index \<open>i\<close> (from 0)
  carries the period index \<open>i + 1\<close>. This holds for either provider and for every behaviour
  of the collaborator.
\<close>

theorem predictions_length_and_order:
  assumes "valid_request data h"
  shows "\<exists>r. process_prediction_request loaded f now data = PredictionBody r
           \<and> int (length (predictions r)) = h
           \<and> (\<forall>i < length (predictions r). period (predictions r ! i) = int i + 1)"
proof -
  from assms have h: "1 \<le> h" by (simp add: valid_request_def)
  let ?r = "generate_predictions loaded f now (identity_of data) h"
  have "process_prediction_request loaded f now data = PredictionBody ?r"
    using assms by (rule process_valid)
  moreover have "int (length (predictions ?r)) = h" using h by simp
  moreover have "\<forall>i < length (predictions ?r). period (predictions ?r ! i) = int i + 1"
    by (simp add: generated_nth)
  ultimately show ?thesis by blast
qed

theorem predictions_length_and_order_witness:
  "valid_request sample_request 3
   \<and> (\<exists>r. process_prediction_request True failing_model ''2024-05-01T09:30:00'' sample_request
            = PredictionBody r
          \<and> int (length (predictions r)) = 3
          \<and> period (predictions r ! 0) = 1
          \<and> period (predictions r ! 1) = 2
          \<and> period (predictions r ! 2) = 3)"
proof -
  from predictions_length_and_order [OF sample_request_valid, of True failing_model
      "''2024-05-01T09:30:00''"]
  obtain r where r: "process_prediction_request True failing_model ''2024-05-01T09:30:00''
        sample_request = PredictionBody r"
    and len: "int (length (predictions r)) = 3"
    and ord: "\<forall>i < length (predictions r). period (predictions r ! i) = int i + 1"
    by blast
  from len have "length (predictions r) = 3" by simp
  with ord have "period (predictions r ! 0) = 1" "period (predictions r ! 1) = 2"
    "period (predictions r ! 2) = 3" by simp_all
  with r len sample_request_valid show ?thesis by blast
qed

text \<open>
  C2. For every period index \<open>p\<close> from 1 to \<open>horizon_window\<close> of a valid request, the outcome
  of that period has year \<open>2024 + (p - 1) div 12\<close> and month \<open>(p - 1) mod 12 + 1\<close>, and its date
  label consists of the four digits of the year, a hyphen and the two digits of the month
  (a leading zero for months below 10). Periods 1, 12, 13 and 24 fall on 2024-01, 2024-12,
  2025-01 and 2025-12.
\<close>

theorem calendar_of_period:
  assumes "valid_request data h" "1 \<le> p" "p \<le> h"
  shows "\<exists>r. process_prediction_request loaded f now data = PredictionBody r
     \<and> period (predictions r ! nat (p - 1)) = p
     \<and> year (predictions r ! nat (p - 1)) = 2024 + (p - 1) div 12
     \<and> month (predictions r ! nat (p - 1)) = (p - 1) mod 12 + 1
     \<and> date (predictions r ! nat (p - 1)) =
         [digit_char (nat (2024 + (p - 1) div 12) div 1000),
          digit_char (nat (2024 + (p - 1) div 12) div 100 mod 10),
          digit_char (nat (2024 + (p - 1) div 12) div 10 mod 10),
          digit_char (nat (2024 + (p - 1) div 12) mod 10),
          CHR ''-'',
          digit_char (nat ((p - 1) mod 12 + 1) div 10),
          digit_char (nat ((p - 1) mod 12 + 1) mod 10)]
     \<and> (p = 1 \<longrightarrow> year (predictions r ! nat (p - 1)) = 2024 \<and> month (predictions r ! nat (p - 1)) = 1
                   \<and> date (predictions r ! nat (p - 1)) = ''2024-01'')
     \<and> (p = 12 \<longrightarrow> year (predictions r ! nat (p - 1)) = 2024 \<and> month (predictions r ! nat (p - 1)) = 12
                   \<and> date (predictions r ! nat (p - 1)) = ''2024-12'')
     \<and> (p = 13 \<longrightarrow> year (predictions r ! nat (p - 1)) = 2025 \<and> month (predictions r ! nat (p - 1)) = 1
                   \<and> date (predictions r ! nat (p - 1)) = ''2025-01'')
     \<and> (p = 24 \<longrightarrow> year (predictions r ! nat (p - 1)) = 2025 \<and> month (predictions r ! nat (p - 1)) = 12
                   \<and> date (predictions r ! nat (p - 1)) = ''2025-12'')"
proof -
  from assms have h: "h \<le> 24" by (simp add: valid_request_def)
  let ?r = "generate_predictions loaded f now (identity_of data) h"
  let ?k = "p - 1"
  let ?o = "predictions ?r ! nat ?k"
  have k: "0 \<le> ?k" "?k < 24" "nat ?k < nat h" using assms(2,3) h by simp_all
  have proc: "process_prediction_request loaded f now data = PredictionBody ?r"
    using assms(1) by (rule process_valid)
  have o: "?o = period_outcome loaded f (identity_of data) ?k"
    using generated_nth [OF k(3)] k(1) by simp
  have y: "1000 \<le> 2024 + ?k div 12" "2024 + ?k div 12 < 10000" using k by simp_all
  have m: "0 \<le> ?k mod 12 + 1" "?k mod 12 + 1 < 100" using k by simp_all
  have dt: "date ?o = str_int (2024 + ?k div 12) @ ''-'' @ fmt_02d (?k mod 12 + 1)"
    by (simp add: o outcome_date)
  have d1: "date ?o = [digit_char (nat (2024 + ?k div 12) div 1000),
          digit_char (nat (2024 + ?k div 12) div 100 mod 10),
          digit_char (nat (2024 + ?k div 12) div 10 mod 10),
          digit_char (nat (2024 + ?k div 12) mod 10),
          CHR ''-'',
          digit_char (nat (?k mod 12 + 1) div 10),
          digit_char (nat (?k mod 12 + 1) mod 10)]"
    unfolding dt str_int_four_digits [OF y] fmt_02d_two_digits [OF m] by simp
  have per: "period ?o = p" "year ?o = 2024 + ?k div 12" "month ?o = ?k mod 12 + 1"
    by (simp_all add: o)
  have c1: "p = 1 \<longrightarrow> year ?o = 2024 \<and> month ?o = 1 \<and> date ?o = ''2024-01''"
  proof
    assume "p = 1"
    then show "year ?o = 2024 \<and> month ?o = 1 \<and> date ?o = ''2024-01''"
      using per d1 by (simp add: digit_char_0 digit_char_values)
  qed
  have c12: "p = 12 \<longrightarrow> year ?o = 2024 \<and> month ?o = 12 \<and> date ?o = ''2024-12''"
  proof
    assume "p = 12"
    then show "year ?o = 2024 \<and> month ?o = 12 \<and> date ?o = ''2024-12''"
      using per d1 by (simp add: digit_char_0 digit_char_values)
  qed
  have c13: "p = 13 \<longrightarrow> year ?o = 2025 \<and> month ?o = 1 \<and> date ?o = ''2025-01''"
  proof
    assume "p = 13"
    then show "year ?o = 2025 \<and> month ?o = 1 \<and> date ?o = ''2025-01''"
      using per d1 by (simp add: digit_char_0 digit_char_values)
  qed
  have c24: "p = 24 \<longrightarrow> year ?o = 2025 \<and> month ?o = 12 \<and> date ?o = ''2025-12''"
  proof
    assume "p = 24"
    then show "year ?o = 2025 \<and> month ?o = 12 \<and> date ?o = ''2025-12''"
      using per d1 by (simp add: digit_char_0 digit_char_values)
  qed
  show ?thesis
    by (rule exI [of _ ?r]) (intro conjI proc per d1 c1 c12 c13 c24)
qed

theorem calendar_of_period_witness:
  "valid_request two_year_request 24 \<and> (1::int) \<le> 13 \<and> (13::int) \<le> 24
   \<and> (\<exists>r. process_prediction_request False failing_model ''2024-05-01T09:30:00'' two_year_request
            = PredictionBody r
        \<and> period (predictions r ! 12) = 13
        \<and> year (predictions r ! 12) = 2025
        \<and> month (predictions r ! 12) = 1
        \<and> date (predictions r ! 12) = ''2025-01'')"
proof -
  from calendar_of_period [OF two_year_request_valid, of 13 False failing_model
      "''2024-05-01T09:30:00''"]
  obtain r where "process_prediction_request False failing_model ''2024-05-01T09:30:00''
        two_year_request = PredictionBody r"
    "period (predictions r ! nat (13 - 1)) = 13"
    "(13::int) = 13 \<longrightarrow> year (predictions r ! nat (13 - 1)) = 2025
        \<and> month (predictions r ! nat (13 - 1)) = 1
        \<and> date (predictions r ! nat (13 - 1)) = ''2025-01''"
    by auto
  then show ?thesis using two_year_request_valid by auto
qed

text \<open>
  C3. For every valid request, whatever the collaborator does: the answer is a prediction
  body with \<open>success\<close> true and one outcome for each of the \<open>horizon_window\<close> periods; the
  failed count is the total minus the successful count; and with the model provider a period
  whose collaborator call raises or returns nothing has no price and the error text
  "Prediction failed for this period". The price of each period depends on the reply for
  that period alone, so a failure neither stops the loop nor touches another period.
  \<open>Raises\<close> covers the exceptions the handler of line 211 catches, those below
  \<^verbatim>\<open>Exception\<close>.
\<close>

theorem period_failure_isolated:
  assumes "valid_request data h"
  shows "\<exists>r. process_prediction_request loaded f now data = PredictionBody r
     \<and> success r
     \<and> int (length (predictions r)) = h
     \<and> total_predictions r = h
     \<and> successful_predictions r
          = int (length (filter (\<lambda>p. predicted_price p \<noteq> None) (predictions r)))
     \<and> failed_predictions r = total_predictions r - successful_predictions r
     \<and> (\<forall>i < nat h.
           loaded \<and> (f (identity_of data) (2024 + int i div 12) (int i mod 12 + 1) = Raises
                 \<or> f (identity_of data) (2024 + int i div 12) (int i mod 12 + 1) = Returns PNone)
           \<longrightarrow> period (predictions r ! i) = int i + 1
               \<and> predicted_price (predictions r ! i) = None
               \<and> error (predictions r ! i) = Some ''Prediction failed for this period'')
     \<and> (\<forall>i < nat h.
           loaded \<longrightarrow> predicted_price (predictions r ! i)
                  = model_price (f (identity_of data) (2024 + int i div 12) (int i mod 12 + 1)))"
proof -
  from assms have h: "1 \<le> h" by (simp add: valid_request_def)
  let ?r = "generate_predictions loaded f now (identity_of data) h"
  have proc: "process_prediction_request loaded f now data = PredictionBody ?r"
    using assms by (rule process_valid)
  have len: "int (length (predictions ?r)) = h" "total_predictions ?r = h"
    using h by (simp_all add: generated_fields)
  have iso: "\<forall>i < nat h.
           loaded \<and> (f (identity_of data) (2024 + int i div 12) (int i mod 12 + 1) = Raises
                 \<or> f (identity_of data) (2024 + int i div 12) (int i mod 12 + 1) = Returns PNone)
           \<longrightarrow> period (predictions ?r ! i) = int i + 1
               \<and> predicted_price (predictions ?r ! i) = None
               \<and> error (predictions ?r ! i) = Some ''Prediction failed for this period''"
    by (auto simp: generated_nth price_value_model model_price_failure)
  have each: "\<forall>i < nat h.
           loaded \<longrightarrow> predicted_price (predictions ?r ! i)
                  = model_price (f (identity_of data) (2024 + int i div 12) (int i mod 12 + 1))"
    by (auto simp: generated_nth price_value_model)
  have ok: "success ?r" by (simp add: generated_fields(1))
  show ?thesis
    by (rule exI [of _ ?r])
      (intro conjI proc ok len iso each generated_fields(3) generated_fields(4))
qed

theorem period_failure_isolated_witness:
  "valid_request sample_request 3
   \<and> (\<exists>r. process_prediction_request True second_month_none ''2024-05-01T09:30:00'' sample_request
            = PredictionBody r
        \<and> success r
        \<and> int (length (predictions r)) = 3
        \<and> total_predictions r = 3
        \<and> failed_predictions r = total_predictions r - successful_predictions r
        \<and> period (predictions r ! 1) = 2
        \<and> predicted_price (predictions r ! 1) = None
        \<and> error (predictions r ! 1) = Some ''Prediction failed for this period'')"
proof -
  from period_failure_isolated [OF sample_request_valid, of True second_month_none
      "''2024-05-01T09:30:00''"]
  obtain r where r: "process_prediction_request True second_month_none ''2024-05-01T09:30:00''
        sample_request = PredictionBody r"
    "success r" "int (length (predictions r)) = 3" "total_predictions r = 3"
    "failed_predictions r = total_predictions r - successful_predictions r"
    and iso: "\<forall>i < nat 3.
           True \<and> (second_month_none (identity_of sample_request) (2024 + int i div 12) (int i mod 12 + 1) = Raises
                 \<or> second_month_none (identity_of sample_request) (2024 + int i div 12) (int i mod 12 + 1) = Returns PNone)
           \<longrightarrow> period (predictions r ! i) = int i + 1
               \<and> predicted_price (predictions r ! i) = None
               \<and> error (predictions r ! i) = Some ''Prediction failed for this period''"
    by blast
  from iso [rule_format, of 1]
  have "period (predictions r ! 1) = 2 \<and> predicted_price (predictions r ! 1) = None
               \<and> error (predictions r ! 1) = Some ''Prediction failed for this period''"
    by (simp add: second_month_none_def)
  with r sample_request_valid show ?thesis by blast
qed





text \<open>
  C6. For every payload whose five identity fields are present (text, not blank): the horizon
  values 0 and 25 give the failure "horizon_window must be between 1 and 24 months", as does
  every integer outside 1 to 24; the string "abc" gives the failure "horizon_window must be a
  valid integer"; an absent \<open>horizon_window\<close> counts as 1 and the request proceeds with one
  period; every integer from 1 to 24 is accepted and yields that many periods.
\<close>

theorem horizon_validation:
  assumes "identity_present data"
  shows "(lookup data ''horizon_window'' = Some (JInt 0) \<longrightarrow>
            process_prediction_request loaded f now data
              = ErrorBody False ''horizon_window must be between 1 and 24 months'' now)
       \<and> (lookup data ''horizon_window'' = Some (JInt 25) \<longrightarrow>
            process_prediction_request loaded f now data
              = ErrorBody False ''horizon_window must be between 1 and 24 months'' now)
       \<and> (lookup data ''horizon_window'' = Some (JStr ''abc'') \<longrightarrow>
            process_prediction_request loaded f now data
              = ErrorBody False ''horizon_window must be a valid integer'' now)
       \<and> (lookup data ''horizon_window'' = None \<longrightarrow>
            (\<exists>r. process_prediction_request loaded f now data = PredictionBody r
               \<and> horizon_window r = 1 \<and> length (predictions r) = 1))
       \<and> (\<forall>n. lookup data ''horizon_window'' = Some (JInt n) \<and> 1 \<le> n \<and> n \<le> 24 \<longrightarrow>
            (\<exists>r. process_prediction_request loaded f now data = PredictionBody r
               \<and> horizon_window r = n \<and> int (length (predictions r)) = n))
       \<and> (\<forall>n. lookup data ''horizon_window'' = Some (JInt n) \<and> (n < 1 \<or> 24 < n) \<longrightarrow>
            process_prediction_request loaded f now data
              = ErrorBody False ''horizon_window must be between 1 and 24 months'' now)"
proof -
  have int_case: "process_prediction_request loaded f now data =
      (if n < 1 \<or> 24 < n then ErrorBody False ''horizon_window must be between 1 and 24 months'' now
       else PredictionBody (generate_predictions loaded f now (identity_of data) n))"
    if "lookup data ''horizon_window'' = Some (JInt n)" for n
    using assms that by (simp add: process_horizon horizon_of_lookup)
  have zero: "lookup data ''horizon_window'' = Some (JInt 0) \<longrightarrow>
            process_prediction_request loaded f now data
              = ErrorBody False ''horizon_window must be between 1 and 24 months'' now"
    by (simp add: int_case)
  have big: "lookup data ''horizon_window'' = Some (JInt 25) \<longrightarrow>
            process_prediction_request loaded f now data
              = ErrorBody False ''horizon_window must be between 1 and 24 months'' now"
    by (simp add: int_case)
  have abc: "lookup data ''horizon_window'' = Some (JStr ''abc'') \<longrightarrow>
            process_prediction_request loaded f now data
              = ErrorBody False ''horizon_window must be a valid integer'' now"
    using assms by (simp add: process_horizon_invalid horizon_of_lookup int_of_string_abc)
  have absent: "lookup data ''horizon_window'' = None \<longrightarrow>
            (\<exists>r. process_prediction_request loaded f now data = PredictionBody r
               \<and> horizon_window r = 1 \<and> length (predictions r) = 1)"
    using assms by (simp add: process_horizon horizon_of_lookup generated_fields)
  have ok: "\<forall>n. lookup data ''horizon_window'' = Some (JInt n) \<and> 1 \<le> n \<and> n \<le> 24 \<longrightarrow>
            (\<exists>r. process_prediction_request loaded f now data = PredictionBody r
               \<and> horizon_window r = n \<and> int (length (predictions r)) = n)"
    by (simp add: int_case generated_fields)
  have bad: "\<forall>n. lookup data ''horizon_window'' = Some (JInt n) \<and> (n < 1 \<or> 24 < n) \<longrightarrow>
            process_prediction_request loaded f now data
              = ErrorBody False ''horizon_window must be between 1 and 24 months'' now"
    by (auto simp: int_case)
  show ?thesis by (intro conjI zero big abc absent ok bad)
qed

theorem horizon_validation_witness:
  "identity_present (with_horizon (JInt 0))
   \<and> process_prediction_request True failing_model ''2024-05-01T09:30:00'' (with_horizon (JInt 0))
       = ErrorBody False ''horizon_window must be between 1 and 24 months'' ''2024-05-01T09:30:00''
   \<and> process_prediction_request True failing_model ''2024-05-01T09:30:00'' (with_horizon (JInt 25))
       = ErrorBody False ''horizon_window must be between 1 and 24 months'' ''2024-05-01T09:30:00''
   \<and> process_prediction_request True failing_model ''2024-05-01T09:30:00'' (with_horizon (JStr ''abc''))
       = ErrorBody False ''horizon_window must be a valid integer'' ''2024-05-01T09:30:00''
   \<and> (\<exists>r. process_prediction_request True failing_model ''2024-05-01T09:30:00'' without_horizon
             = PredictionBody r \<and> horizon_window r = 1 \<and> length (predictions r) = 1)
   \<and> (\<exists>r. process_prediction_request True failing_model ''2024-05-01T09:30:00'' (with_horizon (JInt 24))
             = PredictionBody r \<and> horizon_window r = 24 \<and> int (length (predictions r)) = 24)"
proof -
  note t = horizon_validation [where loaded = True and f = failing_model
      and now = "''2024-05-01T09:30:00''"]
  have a: "process_prediction_request True failing_model ''2024-05-01T09:30:00'' (with_horizon (JInt 0))
       = ErrorBody False ''horizon_window must be between 1 and 24 months'' ''2024-05-01T09:30:00''"
    using t [OF with_horizon_present [of "JInt 0"]] by (simp add: with_horizon_lookup)
  have b: "process_prediction_request True failing_model ''2024-05-01T09:30:00'' (with_horizon (JInt 25))
       = ErrorBody False ''horizon_window must be between 1 and 24 months'' ''2024-05-01T09:30:00''"
    using t [OF with_horizon_present [of "JInt 25"]] by (simp add: with_horizon_lookup)
  have c: "process_prediction_request True failing_model ''2024-05-01T09:30:00'' (with_horizon (JStr ''abc''))
       = ErrorBody False ''horizon_window must be a valid integer'' ''2024-05-01T09:30:00''"
    using t [OF with_horizon_present [of "JStr ''abc''"]] by (simp add: with_horizon_lookup)
  have d: "\<exists>r. process_prediction_request True failing_model ''2024-05-01T09:30:00'' without_horizon
             = PredictionBody r \<and> horizon_window r = 1 \<and> length (predictions r) = 1"
    using t [OF without_horizon_present] by (simp add: without_horizon_def)
  have e: "\<exists>r. process_prediction_request True failing_model ''2024-05-01T09:30:00'' (with_horizon (JInt 24))
             = PredictionBody r \<and> horizon_window r = 24 \<and> int (length (predictions r)) = 24"
    using t [OF with_horizon_present [of "JInt 24"]] by (simp add: with_horizon_lookup)
  from a b c d e with_horizon_present [of "JInt 0"] show ?thesis by (intro conjI)
qed


text \<open>
  C7. With the simulation provider a valid request gets, for the period index \<open>p = i + 1\<close>, the
  price \<open>round(20.0 + (p - 1) * 0.5, 2)\<close>, which is \<open>20 + (p - 1) / 2\<close> exactly; every period
  succeeds and none carries an error. For a horizon of 3 the prices are 20.0, 20.5 and 21.0,
  with minimum 20.0, maximum 21.0, average 20.5 and the trend "increasing". The body names the
  provider "simulation" and carries the advisory note; with the model provider the name is
  "tensorflow" and there is no note.
\<close>

theorem simulation_prices:
  assumes "valid_request data h"
  shows "(\<exists>r. process_prediction_request False f now data = PredictionBody r
       \<and> model_used r = ''simulation''
       \<and> advisory_note r
           = Some ''Using simulated data. Deploy with model files for real predictions.''
       \<and> (\<forall>i < nat h.
             period (predictions r ! i) = int i + 1
           \<and> predicted_price (predictions r ! i) = Some (py_round (20 + of_int (int i) * (1 / 2)) 2)
           \<and> predicted_price (predictions r ! i) = Some (20 + of_int (int i) / 2)
           \<and> error (predictions r ! i) = None)
       \<and> successful_predictions r = h \<and> failed_predictions r = 0
       \<and> (h = 3 \<longrightarrow>
             map predicted_price (predictions r) = [Some 20, Some (41 / 2), Some 21]
           \<and> price_statistics r =
               \<lparr> min_price = Some 20, max_price = Some 21, avg_price = Some (41 / 2),
                 price_trend = ''increasing'' \<rparr>))
     \<and> (\<exists>r. process_prediction_request True f now data = PredictionBody r
       \<and> model_used r = ''tensorflow'' \<and> advisory_note r = None)"
proof -
  from assms have h: "1 \<le> h" by (simp add: valid_request_def)
  let ?r = "generate_predictions False f now (identity_of data) h"
  let ?m = "generate_predictions True f now (identity_of data) h"
  have proc: "process_prediction_request False f now data = PredictionBody ?r"
    using assms by (rule process_valid)
  have procm: "process_prediction_request True f now data = PredictionBody ?m"
    using assms by (rule process_valid)
  have lab: "model_used ?r = ''simulation''"
    "advisory_note ?r = Some ''Using simulated data. Deploy with model files for real predictions.''"
    by (simp_all add: generated_labels)
  have labm: "model_used ?m = ''tensorflow''" "advisory_note ?m = None"
    by (simp_all add: generated_labels)
  have each: "\<forall>i < nat h.
             period (predictions ?r ! i) = int i + 1
           \<and> predicted_price (predictions ?r ! i) = Some (py_round (20 + of_int (int i) * (1 / 2)) 2)
           \<and> predicted_price (predictions ?r ! i) = Some (20 + of_int (int i) / 2)
           \<and> error (predictions ?r ! i) = None"
    by (simp add: generated_nth price_value_simulation simulation_round_exact_nat)
  have "filter (\<lambda>p. predicted_price p \<noteq> None) (predictions ?r) = predictions ?r"
    by (simp add: predictions_generate price_value_simulation del: not_None_eq)
  then have cnt: "successful_predictions ?r = h" "failed_predictions ?r = 0"
    using h by (simp_all add: generated_fields)
  have three: "h = 3 \<longrightarrow>
             map predicted_price (predictions ?r) = [Some 20, Some (41 / 2), Some 21]
           \<and> price_statistics ?r =
               \<lparr> min_price = Some 20, max_price = Some 21, avg_price = Some (41 / 2),
                 price_trend = ''increasing'' \<rparr>"
    by (simp only: generated_statistics) (auto simp only: simulation_three stats_three)
  have sim: "\<exists>r. process_prediction_request False f now data = PredictionBody r
       \<and> model_used r = ''simulation''
       \<and> advisory_note r
           = Some ''Using simulated data. Deploy with model files for real predictions.''
       \<and> (\<forall>i < nat h.
             period (predictions r ! i) = int i + 1
           \<and> predicted_price (predictions r ! i) = Some (py_round (20 + of_int (int i) * (1 / 2)) 2)
           \<and> predicted_price (predictions r ! i) = Some (20 + of_int (int i) / 2)
           \<and> error (predictions r ! i) = None)
       \<and> successful_predictions r = h \<and> failed_predictions r = 0
       \<and> (h = 3 \<longrightarrow>
             map predicted_price (predictions r) = [Some 20, Some (41 / 2), Some 21]
           \<and> price_statistics r =
               \<lparr> min_price = Some 20, max_price = Some 21, avg_price = Some (41 / 2),
                 price_trend = ''increasing'' \<rparr>)"
    by (rule exI [of _ ?r]) (intro conjI proc lab each cnt three)
  have mod: "\<exists>r. process_prediction_request True f now data = PredictionBody r
       \<and> model_used r = ''tensorflow'' \<and> advisory_note r = None"
    by (rule exI [of _ ?m]) (intro conjI procm labm)
  from sim mod show ?thesis by (rule conjI)
qed

theorem simulation_prices_witness:
  "valid_request sample_request 3
   \<and> (\<exists>r. process_prediction_request False other_model ''2024-05-01T09:30:00'' sample_request
             = PredictionBody r
        \<and> model_used r = ''simulation''
        \<and> map predicted_price (predictions r) = [Some 20, Some (41 / 2), Some 21]
        \<and> price_statistics r =
               \<lparr> min_price = Some 20, max_price = Some 21, avg_price = Some (41 / 2),
                 price_trend = ''increasing'' \<rparr>)"
proof -
  from simulation_prices [OF sample_request_valid, of other_model "''2024-05-01T09:30:00''",
      THEN conjunct1]
  obtain r where "process_prediction_request False other_model ''2024-05-01T09:30:00''
        sample_request = PredictionBody r" "model_used r = ''simulation''"
    "(3::int) = 3 \<longrightarrow>
             map predicted_price (predictions r) = [Some 20, Some (41 / 2), Some 21]
           \<and> price_statistics r =
               \<lparr> min_price = Some 20, max_price = Some 21, avg_price = Some (41 / 2),
                 price_trend = ''increasing'' \<rparr>"
    by auto
  then show ?thesis using sample_request_valid by auto
qed

text \<open>
  C8. Two runs of the simulation provider on the same valid request do not return the same
  body: line 272 stores the reading of the clock in the field \<open>timestamp\<close>, so two runs at
  different instants differ there. What holds is that they differ nowhere else: whatever the
  two clock readings and whatever the collaborator (which the simulation never calls), the
  second body is the first one with its timestamp replaced.
\<close>

theorem timestamp_differs_counterexample:
  "process_prediction_request False failing_model first_instant sample_request
     \<noteq> process_prediction_request False failing_model second_instant sample_request"
proof -
  have "timestamp (generate_predictions False failing_model first_instant (identity_of sample_request) 3)
      \<noteq> timestamp (generate_predictions False failing_model second_instant (identity_of sample_request) 3)"
    by (simp add: generated_fields first_instant_def second_instant_def)
  then have "generate_predictions False failing_model first_instant (identity_of sample_request) 3
      \<noteq> generate_predictions False failing_model second_instant (identity_of sample_request) 3"
    by auto
  then show ?thesis
    by (simp add: process_valid [OF sample_request_valid])
qed

theorem simulation_repeatable_up_to_timestamp:
  assumes "valid_request data h"
  shows "\<exists>r. process_prediction_request False f t1 data = PredictionBody r
           \<and> timestamp r = t1
           \<and> process_prediction_request False g t2 data = PredictionBody (r \<lparr> timestamp := t2 \<rparr>)"
proof -
  let ?r = "generate_predictions False f t1 (identity_of data) h"
  have "process_prediction_request False f t1 data = PredictionBody ?r"
    using assms by (rule process_valid)
  moreover have "timestamp ?r = t1" by (simp add: generated_fields)
  moreover have "process_prediction_request False g t2 data = PredictionBody (?r \<lparr> timestamp := t2 \<rparr>)"
    using assms by (simp add: process_valid generate_simulation_clock [of g t2 _ _ f t1])
  ultimately show ?thesis by blast
qed

theorem simulation_repeatable_up_to_timestamp_witness:
  "valid_request sample_request 3
   \<and> (\<exists>r. process_prediction_request False failing_model first_instant sample_request
             = PredictionBody r
          \<and> timestamp r = first_instant
          \<and> process_prediction_request False other_model second_instant sample_request
             = PredictionBody (r \<lparr> timestamp := second_instant \<rparr>))"
  using simulation_repeatable_up_to_timestamp [OF sample_request_valid,
      of failing_model first_instant other_model second_instant]
    sample_request_valid
  by simp

text \<open>
  C9. With the model provider, a period for which the collaborator returns a value that
  tests false (the integer 0, the number 0.0, \<open>False\<close>, nothing) is recorded as failed: no
  price, and the error text set. The test on line 210 is one of truth, not of presence, so a
  predicted price of zero is never reported as such.
\<close>

theorem falsy_reply_is_failure:
  assumes "valid_request data h" "i < nat h"
    and "f (identity_of data) (2024 + int i div 12) (int i mod 12 + 1) = Returns v"
    and "\<not> truthy v"
  shows "(\<exists>r. process_prediction_request True f now data = PredictionBody r
     \<and> period (predictions r ! i) = int i + 1
     \<and> predicted_price (predictions r ! i) = None
     \<and> error (predictions r ! i) = Some ''Prediction failed for this period'')
     \<and> \<not> truthy (PInt 0) \<and> \<not> truthy (PFloat 0) \<and> \<not> truthy (PBool False) \<and> \<not> truthy PNone"
proof -
  let ?r = "generate_predictions True f now (identity_of data) h"
  have proc: "process_prediction_request True f now data = PredictionBody ?r"
    using assms(1) by (rule process_valid)
  have "predictions ?r ! i = period_outcome True f (identity_of data) (int i)"
    using assms(2) by (rule generated_nth)
  moreover have "price_value True f (identity_of data) (int i) = None"
    using assms(3,4) by (simp add: price_value_model model_price_falsy)
  ultimately have "period (predictions ?r ! i) = int i + 1
     \<and> predicted_price (predictions ?r ! i) = None
     \<and> error (predictions ?r ! i) = Some ''Prediction failed for this period''"
    by simp
  with proc show ?thesis by simp
qed

theorem falsy_reply_is_failure_witness:
  "valid_request sample_request 3 \<and> 0 < nat 3
   \<and> zero_model (identity_of sample_request) (2024 + int 0 div 12) (int 0 mod 12 + 1) = Returns (PInt 0)
   \<and> \<not> truthy (PInt 0)
   \<and> (\<exists>r. process_prediction_request True zero_model ''2024-05-01T09:30:00'' sample_request
            = PredictionBody r
        \<and> period (predictions r ! 0) = 1
        \<and> predicted_price (predictions r ! 0) = None
        \<and> error (predictions r ! 0) = Some ''Prediction failed for this period'')"
proof -
  have a: "(0::nat) < nat 3" by simp
  have b: "zero_model (identity_of sample_request) (2024 + int 0 div 12) (int 0 mod 12 + 1)
      = Returns (PInt 0)"
    by (simp add: zero_model_def)
  have c: "\<not> truthy (PInt 0)" by simp
  from falsy_reply_is_failure [where data = sample_request and h = 3 and i = 0
      and f = zero_model and v = "PInt 0" and now = "''2024-05-01T09:30:00''",
      OF sample_request_valid a b c]
  show ?thesis using sample_request_valid a b c by simp
qed

text \<open>
  C10. For every payload whose five identity fields are present, a \<open>horizon_window\<close> given as
  a finite number with a fractional part is not refused as such: \<^verbatim>\<open>int\<close> drops the fraction
  (towards zero) and the range check is applied to the result. So 2.9 is accepted and yields
  2 periods; \<open>True\<close> counts as 1 and \<open>False\<close> as 0, which the range check then refuses; the
  string "2.9" is refused as not an integer.
\<close>

theorem fractional_horizon_truncated:
  assumes "identity_present data"
  shows "(\<forall>x. lookup data ''horizon_window'' = Some (JFloat x) \<longrightarrow>
            (if 1 \<le> float_to_int x \<and> float_to_int x \<le> 24 then
               (\<exists>r. process_prediction_request loaded f now data = PredictionBody r
                  \<and> horizon_window r = float_to_int x
                  \<and> int (length (predictions r)) = float_to_int x)
             else process_prediction_request loaded f now data
                    = ErrorBody False ''horizon_window must be between 1 and 24 months'' now)
          \<and> \<bar>of_int (float_to_int x)\<bar> \<le> \<bar>x\<bar> \<and> \<bar>x - of_int (float_to_int x)\<bar> < 1)
       \<and> (lookup data ''horizon_window'' = Some (JFloat (29 / 10)) \<longrightarrow>
            (\<exists>r. process_prediction_request loaded f now data = PredictionBody r
               \<and> horizon_window r = 2 \<and> length (predictions r) = 2))
       \<and> (lookup data ''horizon_window'' = Some (JBool True) \<longrightarrow>
            (\<exists>r. process_prediction_request loaded f now data = PredictionBody r
               \<and> horizon_window r = 1 \<and> length (predictions r) = 1))
       \<and> (lookup data ''horizon_window'' = Some (JBool False) \<longrightarrow>
            process_prediction_request loaded f now data
              = ErrorBody False ''horizon_window must be between 1 and 24 months'' now)
       \<and> (lookup data ''horizon_window'' = Some (JStr ''2.9'') \<longrightarrow>
            process_prediction_request loaded f now data
              = ErrorBody False ''horizon_window must be a valid integer'' now)"
proof -
  have float_case: "process_prediction_request loaded f now data =
      (if float_to_int x < 1 \<or> 24 < float_to_int x
       then ErrorBody False ''horizon_window must be between 1 and 24 months'' now
       else PredictionBody (generate_predictions loaded f now (identity_of data) (float_to_int x)))"
    if "lookup data ''horizon_window'' = Some (JFloat x)" for x
    using assms that by (simp add: process_horizon horizon_of_lookup)
  have bool_case: "process_prediction_request loaded f now data =
      (if b then PredictionBody (generate_predictions loaded f now (identity_of data) 1)
       else ErrorBody False ''horizon_window must be between 1 and 24 months'' now)"
    if "lookup data ''horizon_window'' = Some (JBool b)" for b
    using assms that by (simp add: process_horizon horizon_of_lookup)
  have gen: "\<forall>x. lookup data ''horizon_window'' = Some (JFloat x) \<longrightarrow>
            (if 1 \<le> float_to_int x \<and> float_to_int x \<le> 24 then
               (\<exists>r. process_prediction_request loaded f now data = PredictionBody r
                  \<and> horizon_window r = float_to_int x
                  \<and> int (length (predictions r)) = float_to_int x)
             else process_prediction_request loaded f now data
                    = ErrorBody False ''horizon_window must be between 1 and 24 months'' now)
          \<and> \<bar>of_int (float_to_int x)\<bar> \<le> \<bar>x\<bar> \<and> \<bar>x - of_int (float_to_int x)\<bar> < 1"
  proof (intro allI impI conjI)
    fix x assume l: "lookup data ''horizon_window'' = Some (JFloat x)"
    show "if 1 \<le> float_to_int x \<and> float_to_int x \<le> 24 then
               (\<exists>r. process_prediction_request loaded f now data = PredictionBody r
                  \<and> horizon_window r = float_to_int x
                  \<and> int (length (predictions r)) = float_to_int x)
             else process_prediction_request loaded f now data
                    = ErrorBody False ''horizon_window must be between 1 and 24 months'' now"
      by (auto simp: float_case [OF l] generated_fields)
  next
    fix x show "\<bar>of_int (float_to_int x)\<bar> \<le> \<bar>x\<bar>"
      using float_to_int_towards_zero [of x] by (rule conjunct1)
  next
    fix x show "\<bar>x - of_int (float_to_int x)\<bar> < 1"
      using float_to_int_towards_zero [of x] by (rule conjunct2)
  qed
  have two_nine: "lookup data ''horizon_window'' = Some (JFloat (29 / 10)) \<longrightarrow>
            (\<exists>r. process_prediction_request loaded f now data = PredictionBody r
               \<and> horizon_window r = 2 \<and> length (predictions r) = 2)"
  proof
    assume "lookup data ''horizon_window'' = Some (JFloat (29 / 10))"
    from float_case [OF this]
    have "process_prediction_request loaded f now data
        = PredictionBody (generate_predictions loaded f now (identity_of data) 2)"
      by (simp add: float_to_int_2_9)
    then show "\<exists>r. process_prediction_request loaded f now data = PredictionBody r
               \<and> horizon_window r = 2 \<and> length (predictions r) = 2"
      by (simp add: generated_fields)
  qed
  have yes: "lookup data ''horizon_window'' = Some (JBool True) \<longrightarrow>
            (\<exists>r. process_prediction_request loaded f now data = PredictionBody r
               \<and> horizon_window r = 1 \<and> length (predictions r) = 1)"
  proof
    assume "lookup data ''horizon_window'' = Some (JBool True)"
    from bool_case [OF this]
    show "\<exists>r. process_prediction_request loaded f now data = PredictionBody r
               \<and> horizon_window r = 1 \<and> length (predictions r) = 1"
      by (simp add: generated_fields)
  qed
  have no: "lookup data ''horizon_window'' = Some (JBool False) \<longrightarrow>
            process_prediction_request loaded f now data
              = ErrorBody False ''horizon_window must be between 1 and 24 months'' now"
  proof
    assume "lookup data ''horizon_window'' = Some (JBool False)"
    from bool_case [OF this]
    show "process_prediction_request loaded f now data
              = ErrorBody False ''horizon_window must be between 1 and 24 months'' now"
      by simp
  qed
  have str_case: "lookup data ''horizon_window'' = Some (JStr ''2.9'') \<longrightarrow>
            process_prediction_request loaded f now data
              = ErrorBody False ''horizon_window must be a valid integer'' now"
    using assms by (simp add: process_horizon_invalid horizon_of_lookup int_of_string_2_9)
  show ?thesis by (intro conjI gen two_nine yes no str_case)
qed

theorem fractional_horizon_truncated_witness:
  "identity_present (with_horizon (JFloat (29 / 10)))
   \<and> (\<exists>r. process_prediction_request False failing_model ''2024-05-01T09:30:00''
             (with_horizon (JFloat (29 / 10))) = PredictionBody r
          \<and> horizon_window r = 2 \<and> length (predictions r) = 2)
   \<and> (\<exists>r. process_prediction_request False failing_model ''2024-05-01T09:30:00''
             (with_horizon (JBool True)) = PredictionBody r
          \<and> horizon_window r = 1 \<and> length (predictions r) = 1)
   \<and> process_prediction_request False failing_model ''2024-05-01T09:30:00''
         (with_horizon (JStr ''2.9''))
       = ErrorBody False ''horizon_window must be a valid integer'' ''2024-05-01T09:30:00''"
proof -
  note t = fractional_horizon_truncated [where loaded = False and f = failing_model
      and now = "''2024-05-01T09:30:00''"]
  have a: "\<exists>r. process_prediction_request False failing_model ''2024-05-01T09:30:00''
             (with_horizon (JFloat (29 / 10))) = PredictionBody r
          \<and> horizon_window r = 2 \<and> length (predictions r) = 2"
    using t [OF with_horizon_present [of "JFloat (29 / 10)"]]
    by (simp only: with_horizon_lookup simp_thms)
  have b: "\<exists>r. process_prediction_request False failing_model ''2024-05-01T09:30:00''
             (with_horizon (JBool True)) = PredictionBody r
          \<and> horizon_window r = 1 \<and> length (predictions r) = 1"
    using t [OF with_horizon_present [of "JBool True"]]
    by (simp add: with_horizon_lookup)
  have c: "process_prediction_request False failing_model ''2024-05-01T09:30:00''
         (with_horizon (JStr ''2.9''))
       = ErrorBody False ''horizon_window must be a valid integer'' ''2024-05-01T09:30:00''"
    using t [OF with_horizon_present [of "JStr ''2.9''"]]
    by (simp add: with_horizon_lookup)
  from with_horizon_present [of "JFloat (29 / 10)"] a b c show ?thesis by (intro conjI)
qed

end
